theory Spec2Isabelle
  imports Main "HOL-Library.Word" "HOL-Library.AList"
begin

section \<open>Machine types, errors and the big-endian codec\<close>

text \<open>
  The commit log of \<^verbatim>\<open>internal/log\<close>: \<^verbatim>\<open>store.go\<close>, \<^verbatim>\<open>index.go\<close>, \<^verbatim>\<open>segment.go\<close>
  and \<^verbatim>\<open>log.go\<close>. Go's \<^verbatim>\<open>uint64\<close>, \<^verbatim>\<open>uint32\<close> and \<^verbatim>\<open>byte\<close> are words of that width, so
  \<open>+\<close> wraps as it does in Go. An \<^verbatim>\<open>int64\<close> obtained by converting a \<^verbatim>\<open>uint64\<close> is kept as
  the same 64 bits; it is negative when its value as unsigned number is at least \<open>2 ^ 63\<close>.
\<close>

type_synonym byte = "8 word"
type_synonym u32 = "32 word"
type_synonym u64 = "64 word"

text \<open>
  The errors of the packages \<^verbatim>\<open>io\<close> and \<^verbatim>\<open>os\<close>: \<open>EOF\<close> is \<^verbatim>\<open>io.EOF\<close>, \<open>ErrClosed\<close> is
  \<^verbatim>\<open>os.ErrClosed\<close>, \<open>ErrNotExist\<close> and \<open>ErrInvalid\<close> are the system call errors ENOENT and
  EINVAL.
\<close>

datatype io_error =
    EOF
  | ErrClosed
  | ErrNotExist
  | ErrInvalid

text \<open>
  Every Go \<^verbatim>\<open>error\<close> the package can return. \<open>ErrOffsetOutOfRange\<close> is
  \<^verbatim>\<open>api.ErrOffsetOutOfRange{Offset}\<close>, \<open>IOError\<close> is an error of \<^verbatim>\<open>io\<close> or \<^verbatim>\<open>os\<close>,
  \<open>ErrCodec\<close> is any error of \<^verbatim>\<open>proto.Marshal\<close> or \<^verbatim>\<open>proto.Unmarshal\<close>. A run-time panic (nil
  dereference, index or slice out of range) is the value \<open>Panic\<close>; it is propagated by
  every caller and never handled as an \<^verbatim>\<open>err\<close>.
\<close>

datatype error =
    ErrOffsetOutOfRange u64
  | IOError io_error
  | ErrCodec
  | Panic

text \<open>\<^verbatim>\<open>enc = binary.BigEndian\<close>: \<open>be_bytes n v\<close> is the \<open>n\<close>-byte big-endian form of \<open>v\<close>.\<close>

fun be_bytes :: "nat \<Rightarrow> nat \<Rightarrow> byte list" where
  "be_bytes 0 v = []"
| "be_bytes (Suc n) v = be_bytes n (v div 256) @ [of_nat v]"

definition be_value :: "byte list \<Rightarrow> nat" where
  "be_value bs = foldl (\<lambda>a b. a * 256 + unat b) 0 bs"

definition PutUint64 :: "u64 \<Rightarrow> byte list" where
  "PutUint64 v = be_bytes 8 (unat v)"

definition PutUint32 :: "u32 \<Rightarrow> byte list" where
  "PutUint32 v = be_bytes 4 (unat v)"

definition Uint64 :: "byte list \<Rightarrow> u64" where
  "Uint64 bs = of_nat (be_value bs)"

definition Uint32 :: "byte list \<Rightarrow> u32" where
  "Uint32 bs = of_nat (be_value bs)"

section \<open>The file system and the operating system calls\<close>

text \<open>
  The log owns one directory \<^verbatim>\<open>l.Dir\<close>. Its contents are an association list from file
  name to file contents; \<^verbatim>\<open>path.Join(dir, name)\<close> is the key \<open>name\<close>. An \<^verbatim>\<open>*os.File\<close> is a
  handle: the name it was opened under and whether it has been closed. System calls
  succeed unless the handle is closed, the name is absent or an argument is invalid:
  faults of the device (a full disk, a failing read) are not part of the model.
\<close>

type_synonym filesys = "(string \<times> byte list) list"

record os_File =
  fname :: string
  fclosed :: bool

text \<open>\<^verbatim>\<open>os.OpenFile(name, O_RDWR|O_CREATE|O_APPEND, 0644)\<close>\<close>

definition os_OpenFile :: "filesys \<Rightarrow> string \<Rightarrow> filesys \<times> os_File" where
  "os_OpenFile fs nm =
     ((case map_of fs nm of None \<Rightarrow> fs @ [(nm, [])] | Some c \<Rightarrow> fs),
      \<lparr>fname = nm, fclosed = False\<rparr>)"

text \<open>\<^verbatim>\<open>os.Stat(name)\<close>, of which the callers read only \<^verbatim>\<open>Size()\<close>.\<close>

definition os_Stat :: "filesys \<Rightarrow> string \<Rightarrow> io_error + nat" where
  "os_Stat fs nm = (case map_of fs nm of None \<Rightarrow> Inl ErrNotExist | Some c \<Rightarrow> Inr (length c))"

text \<open>Changing a file's length: cut, or extended with zero bytes.\<close>

definition resize :: "nat \<Rightarrow> byte list \<Rightarrow> byte list" where
  "resize n c = take n c @ replicate (n - length c) 0"

text \<open>\<^verbatim>\<open>os.Truncate(name, int64(n))\<close>: a negative length is EINVAL.\<close>

definition os_Truncate :: "filesys \<Rightarrow> string \<Rightarrow> u64 \<Rightarrow> filesys \<times> io_error option" where
  "os_Truncate fs nm n =
     (if 2 ^ 63 \<le> unat n then (fs, Some ErrInvalid)
      else case map_of fs nm of
             None \<Rightarrow> (fs, Some ErrNotExist)
           | Some c \<Rightarrow> (AList.update nm (resize (unat n) c) fs, None))"

text \<open>\<^verbatim>\<open>os.Remove(name)\<close>\<close>

definition os_Remove :: "filesys \<Rightarrow> string \<Rightarrow> filesys \<times> io_error option" where
  "os_Remove fs nm =
     (case map_of fs nm of
        None \<Rightarrow> (fs, Some ErrNotExist)
      | Some c \<Rightarrow> (AList.delete nm fs, None))"

text \<open>\<^verbatim>\<open>(*os.File).Write\<close> on a file opened with \<^verbatim>\<open>O_APPEND\<close>: bytes written and error.\<close>

definition File_Write ::
  "filesys \<Rightarrow> os_File \<Rightarrow> byte list \<Rightarrow> filesys \<times> nat \<times> io_error option" where
  "File_Write fs f bs =
     (if fclosed f then (fs, 0, Some ErrClosed)
      else case map_of fs (fname f) of
             None \<Rightarrow> (fs, 0, Some ErrNotExist)
           | Some c \<Rightarrow> (AList.update (fname f) (c @ bs) fs, length bs, None))"

text \<open>
  \<^verbatim>\<open>(*os.File).ReadAt(b, off)\<close> with \<^verbatim>\<open>len(b) = n\<close>: a negative offset is refused, an
  empty buffer reads nothing without touching the file, and fewer than \<open>n\<close> bytes come
  with \<^verbatim>\<open>io.EOF\<close>.
\<close>

definition File_ReadAt ::
  "filesys \<Rightarrow> os_File \<Rightarrow> nat \<Rightarrow> u64 \<Rightarrow> byte list \<times> io_error option" where
  "File_ReadAt fs f n off =
     (if 2 ^ 63 \<le> unat off then ([], Some ErrInvalid)
      else if n = 0 then ([], None)
      else if fclosed f then ([], Some ErrClosed)
      else case map_of fs (fname f) of
             None \<Rightarrow> ([], Some ErrNotExist)
           | Some c \<Rightarrow>
               (let bs = take n (drop (unat off) c)
                in (bs, if length bs < n then Some EOF else None)))"

text \<open>\<^verbatim>\<open>(*os.File).Sync\<close>, \<^verbatim>\<open>(*os.File).Truncate(int64(n))\<close> and \<^verbatim>\<open>(*os.File).Close\<close>\<close>

definition File_Sync :: "os_File \<Rightarrow> io_error option" where
  "File_Sync f = (if fclosed f then Some ErrClosed else None)"

definition File_Truncate :: "filesys \<Rightarrow> os_File \<Rightarrow> u64 \<Rightarrow> filesys \<times> io_error option" where
  "File_Truncate fs f n =
     (if fclosed f then (fs, Some ErrClosed) else os_Truncate fs (fname f) n)"

definition File_Close :: "os_File \<Rightarrow> os_File \<times> io_error option" where
  "File_Close f =
     (if fclosed f then (f, Some ErrClosed) else (f\<lparr>fclosed := True\<rparr>, None))"

subsection \<open>The buffered writer\<close>

text \<open>
  \<^verbatim>\<open>bufio.NewWriter(f)\<close>: a buffer of 4096 bytes in front of the file, with the bytes not
  yet written (\<open>pending\<close>) and the writer's sticky error. \<open>Writer_Flush\<close> and
  \<open>Writer_Write\<close> follow \<^verbatim>\<open>(*bufio.Writer).Flush\<close> and \<^verbatim>\<open>(*bufio.Writer).Write\<close>; the loop of
  \<^verbatim>\<open>Write\<close> runs at most twice (fill and flush the buffer, then write the rest directly
  when it is larger than the buffer) and is written out.
\<close>

record Writer =
  pending :: "byte list"
  werr :: "io_error option"

definition bufSize :: nat where
  "bufSize = 4096"

definition Writer_Flush ::
  "filesys \<Rightarrow> os_File \<Rightarrow> Writer \<Rightarrow> filesys \<times> Writer \<times> io_error option" where
  "Writer_Flush fs f b =
     (case werr b of
        Some e \<Rightarrow> (fs, b, Some e)
      | None \<Rightarrow>
          if pending b = [] then (fs, b, None)
          else (case File_Write fs f (pending b) of
                  (fs1, n, Some e) \<Rightarrow> (fs1, b\<lparr>pending := drop n (pending b), werr := Some e\<rparr>, Some e)
                | (fs1, n, None) \<Rightarrow> (fs1, b\<lparr>pending := []\<rparr>, None)))"

definition Writer_Write ::
  "filesys \<Rightarrow> os_File \<Rightarrow> Writer \<Rightarrow> byte list \<Rightarrow> filesys \<times> Writer \<times> nat \<times> io_error option" where
  "Writer_Write fs f b p =
     (case werr b of
        Some e \<Rightarrow> (fs, b, 0, Some e)
      | None \<Rightarrow>
          if length p \<le> bufSize - length (pending b)
          then (fs, b\<lparr>pending := pending b @ p\<rparr>, length p, None)
          else if pending b = []
          then (case File_Write fs f p of
                  (fs1, n, Some e) \<Rightarrow> (fs1, b\<lparr>werr := Some e\<rparr>, n, Some e)
                | (fs1, n, None) \<Rightarrow> (fs1, b, n, None))
          else
            (let n1 = bufSize - length (pending b);
                 rest = drop n1 p
             in case Writer_Flush fs f (b\<lparr>pending := pending b @ take n1 p\<rparr>) of
                  (fs1, b1, Some e) \<Rightarrow> (fs1, b1, n1, Some e)
                | (fs1, b1, None) \<Rightarrow>
                    if length rest \<le> bufSize
                    then (fs1, b1\<lparr>pending := rest\<rparr>, length p, None)
                    else (case File_Write fs1 f rest of
                            (fs2, n, Some e) \<Rightarrow> (fs2, b1\<lparr>werr := Some e\<rparr>, n1 + n, Some e)
                          | (fs2, n, None) \<Rightarrow> (fs2, b1, n1 + n, None))))"

section \<open>The store (store.go)\<close>

record store =
  s_File :: os_File
  s_buf :: Writer
  s_size :: u64

definition lenWidth :: nat where
  "lenWidth = 8"

definition newStore :: "filesys \<Rightarrow> os_File \<Rightarrow> error + store" where
  "newStore fs f =
     (case os_Stat fs (fname f) of
        Inl e \<Rightarrow> Inl (IOError e)
      | Inr n \<Rightarrow> Inr \<lparr>s_File = f, s_buf = \<lparr>pending = [], werr = None\<rparr>, s_size = of_nat n\<rparr>)"

text \<open>\<open>store_Append\<close> returns \<^verbatim>\<open>(n, pos, err)\<close>, the file system and the store.\<close>

definition store_Append ::
  "filesys \<Rightarrow> store \<Rightarrow> byte list \<Rightarrow> (u64 \<times> u64 \<times> error option) \<times> filesys \<times> store" where
  "store_Append fs s p =
     (let pos = s_size s
      in case Writer_Write fs (s_File s) (s_buf s) (PutUint64 (of_nat (length p))) of
           (fs1, b1, _, Some e) \<Rightarrow> ((0, 0, Some (IOError e)), fs1, s\<lparr>s_buf := b1\<rparr>)
         | (fs1, b1, _, None) \<Rightarrow>
             (case Writer_Write fs1 (s_File s) b1 p of
                (fs2, b2, _, Some e) \<Rightarrow> ((0, 0, Some (IOError e)), fs2, s\<lparr>s_buf := b2\<rparr>)
              | (fs2, b2, w, None) \<Rightarrow>
                  ((of_nat (w + lenWidth), pos, None), fs2,
                   s\<lparr>s_buf := b2, s_size := s_size s + of_nat (w + lenWidth)\<rparr>)))"

text \<open>
  \<open>store_Read\<close>: the slice \<^verbatim>\<open>make([]byte, enc.Uint64(size))\<close> is taken to be allocated
  whatever its length; a length the file does not have ends in \<^verbatim>\<open>io.EOF\<close>.
\<close>

definition store_Read ::
  "filesys \<Rightarrow> store \<Rightarrow> u64 \<Rightarrow> (error + byte list) \<times> filesys \<times> store" where
  "store_Read fs s pos =
     (case Writer_Flush fs (s_File s) (s_buf s) of
        (fs1, b1, Some e) \<Rightarrow> (Inl (IOError e), fs1, s\<lparr>s_buf := b1\<rparr>)
      | (fs1, b1, None) \<Rightarrow>
          (case File_ReadAt fs1 (s_File s) lenWidth pos of
             (sz, Some e) \<Rightarrow> (Inl (IOError e), fs1, s\<lparr>s_buf := b1\<rparr>)
           | (sz, None) \<Rightarrow>
               (case File_ReadAt fs1 (s_File s) (unat (Uint64 sz)) (pos + of_nat lenWidth) of
                  (b, Some e) \<Rightarrow> (Inl (IOError e), fs1, s\<lparr>s_buf := b1\<rparr>)
                | (b, None) \<Rightarrow> (Inr b, fs1, s\<lparr>s_buf := b1\<rparr>))))"

text \<open>\<open>store_ReadAt\<close> with \<^verbatim>\<open>len(p) = n\<close>: the bytes read and the error.\<close>

definition store_ReadAt ::
  "filesys \<Rightarrow> store \<Rightarrow> nat \<Rightarrow> u64 \<Rightarrow> (byte list \<times> io_error option) \<times> filesys \<times> store" where
  "store_ReadAt fs s n off =
     (case Writer_Flush fs (s_File s) (s_buf s) of
        (fs1, b1, Some e) \<Rightarrow> (([], Some e), fs1, s\<lparr>s_buf := b1\<rparr>)
      | (fs1, b1, None) \<Rightarrow> (File_ReadAt fs1 (s_File s) n off, fs1, s\<lparr>s_buf := b1\<rparr>))"

definition store_Close :: "filesys \<Rightarrow> store \<Rightarrow> error option \<times> filesys \<times> store" where
  "store_Close fs s =
     (case Writer_Flush fs (s_File s) (s_buf s) of
        (fs1, b1, Some e) \<Rightarrow> (Some (IOError e), fs1, s\<lparr>s_buf := b1\<rparr>)
      | (fs1, b1, None) \<Rightarrow>
          (case File_Close (s_File s) of
             (f1, e) \<Rightarrow> (map_option IOError e, fs1, s\<lparr>s_File := f1, s_buf := b1\<rparr>)))"

section \<open>The index (index.go)\<close>

text \<open>
  Modelled from the spec: the type \<^verbatim>\<open>Config\<close> (config.go is not among the sources). Its
  three options are \<^verbatim>\<open>Segment.MaxStoreBytes\<close>, \<^verbatim>\<open>Segment.MaxIndexBytes\<close> and
  \<^verbatim>\<open>Segment.InitialOffset\<close>, each a \<^verbatim>\<open>uint64\<close>.
\<close>

record Config =
  MaxStoreBytes :: u64
  MaxIndexBytes :: u64
  InitialOffset :: u64

definition offWidth :: u64 where
  "offWidth = 4"

definition posWidth :: u64 where
  "posWidth = 8"

definition entWidth :: u64 where
  "entWidth = offWidth + posWidth"

text \<open>
  The mapping \<^verbatim>\<open>gommap.MMap\<close> is a byte array as long as the file was when it was mapped.
  Writes go to the array; \<^verbatim>\<open>mmap.Sync\<close> carries them to the file, as far as the file
  reaches. The mapping outlives \<^verbatim>\<open>Close\<close>, which does not unmap it. Mapping an empty
  file is EINVAL.
\<close>

record index =
  i_file :: os_File
  i_mmap :: "byte list"
  i_size :: u64

definition gommap_Map :: "filesys \<Rightarrow> os_File \<Rightarrow> io_error + byte list" where
  "gommap_Map fs f =
     (if fclosed f then Inl ErrClosed
      else case map_of fs (fname f) of
             None \<Rightarrow> Inl ErrNotExist
           | Some c \<Rightarrow> if c = [] then Inl ErrInvalid else Inr c)"

definition mmap_Sync :: "filesys \<Rightarrow> os_File \<Rightarrow> byte list \<Rightarrow> filesys" where
  "mmap_Sync fs f m =
     (case map_of fs (fname f) of
        None \<Rightarrow> fs
      | Some c \<Rightarrow> AList.update (fname f) (take (length c) m @ drop (length m) c) fs)"

definition newIndex :: "filesys \<Rightarrow> os_File \<Rightarrow> Config \<Rightarrow> (error + index) \<times> filesys" where
  "newIndex fs f c =
     (case os_Stat fs (fname f) of
        Inl e \<Rightarrow> (Inl (IOError e), fs)
      | Inr n \<Rightarrow>
          (case os_Truncate fs (fname f) (MaxIndexBytes c) of
             (fs1, Some e) \<Rightarrow> (Inl (IOError e), fs1)
           | (fs1, None) \<Rightarrow>
               (case gommap_Map fs1 f of
                  Inl e \<Rightarrow> (Inl (IOError e), fs1)
                | Inr m \<Rightarrow> (Inr \<lparr>i_file = f, i_mmap = m, i_size = of_nat n\<rparr>, fs1))))"

definition index_Close :: "filesys \<Rightarrow> index \<Rightarrow> error option \<times> filesys \<times> index" where
  "index_Close fs i =
     (let fs1 = mmap_Sync fs (i_file i) (i_mmap i)
      in case File_Sync (i_file i) of
           Some e \<Rightarrow> (Some (IOError e), fs1, i)
         | None \<Rightarrow>
             (case File_Truncate fs1 (i_file i) (i_size i) of
                (fs2, Some e) \<Rightarrow> (Some (IOError e), fs2, i)
              | (fs2, None) \<Rightarrow>
                  (case File_Close (i_file i) of
                     (f1, e) \<Rightarrow> (map_option IOError e, fs2, i\<lparr>i_file := f1\<rparr>))))"

text \<open>
  \<open>index_Read i n\<close>: \<open>n\<close> is the \<^verbatim>\<open>int64\<close> argument, \<open>- 1\<close> asks for the last entry. Slicing
  the mapping beyond its length panics.
\<close>

definition index_Read :: "index \<Rightarrow> u64 \<Rightarrow> error + (u32 \<times> u64)" where
  "index_Read i n =
     (if i_size i = 0 then Inl (IOError EOF)
      else
        (let out = (if n = - 1 then (ucast ((i_size i div entWidth) - 1) :: u32) else ucast n);
             pos = (ucast out :: u64) * entWidth
         in if i_size i < pos + entWidth then Inl (IOError EOF)
            else if length (i_mmap i) < unat pos + unat entWidth then Inl Panic
            else Inr (Uint32 (take (unat offWidth) (drop (unat pos) (i_mmap i))),
                      Uint64 (take (unat posWidth) (drop (unat pos + unat offWidth) (i_mmap i))))))"

definition index_Write :: "index \<Rightarrow> u32 \<Rightarrow> u64 \<Rightarrow> error option \<times> index" where
  "index_Write i off pos =
     (if of_nat (length (i_mmap i)) < i_size i + entWidth then (Some (IOError EOF), i)
      else if length (i_mmap i) < unat (i_size i) + unat entWidth then (Some Panic, i)
      else (None,
            i\<lparr>i_mmap := take (unat (i_size i)) (i_mmap i) @ PutUint32 off @ PutUint64 pos
                          @ drop (unat (i_size i) + unat entWidth) (i_mmap i),
              i_size := i_size i + entWidth\<rparr>))"

definition index_Name :: "index \<Rightarrow> string" where
  "index_Name i = fname (i_file i)"

section \<open>Records and their codec\<close>

text \<open>
  \<^verbatim>\<open>api.Record\<close> has the fields \<^verbatim>\<open>Value []byte\<close> and \<^verbatim>\<open>Offset uint64\<close>. The codec
  (\<^verbatim>\<open>proto.Marshal\<close>, \<^verbatim>\<open>proto.Unmarshal\<close>) is outside the package: it is a parameter of the
  model, a pair of functions that may fail.
\<close>

record Record =
  Value :: "byte list"
  Offset :: u64

record codec =
  Marshal :: "Record \<Rightarrow> byte list option"
  Unmarshal :: "byte list \<Rightarrow> Record option"

section \<open>File names: \<^verbatim>\<open>fmt.Sprintf\<close>, \<^verbatim>\<open>path.Ext\<close>, \<^verbatim>\<open>strings.TrimSuffix\<close>, \<^verbatim>\<open>strconv.ParseUint\<close>\<close>

definition digit_char :: "nat \<Rightarrow> char" where
  "digit_char d = ''0123456789'' ! d"

function dec_digits :: "nat \<Rightarrow> string" where
  "dec_digits n =
     (if n < 10 then [digit_char n] else dec_digits (n div 10) @ [digit_char (n mod 10)])"
  by pat_completeness auto
termination
  by (relation "measure id") auto

declare dec_digits.simps [simp del]

text \<open>\<^verbatim>\<open>fmt.Sprintf("%d%s", baseOffset, ".store")\<close> and the same with \<^verbatim>\<open>".index"\<close>\<close>

definition storeName :: "u64 \<Rightarrow> string" where
  "storeName b = dec_digits (unat b) @ ''.store''"

definition indexName :: "u64 \<Rightarrow> string" where
  "indexName b = dec_digits (unat b) @ ''.index''"

text \<open>
  \<^verbatim>\<open>path.Ext\<close> walks back from the end of the path to the last dot of its last element;
  \<open>Ext_rev\<close> is that loop on the reversed path.
\<close>

fun Ext_rev :: "string \<Rightarrow> string \<Rightarrow> string" where
  "Ext_rev [] acc = []"
| "Ext_rev (c # cs) acc =
     (if c = CHR ''/'' then []
      else if c = CHR ''.'' then c # acc
      else Ext_rev cs (c # acc))"

definition path_Ext :: "string \<Rightarrow> string" where
  "path_Ext p = Ext_rev (rev p) []"

definition TrimSuffix :: "string \<Rightarrow> string \<Rightarrow> string" where
  "TrimSuffix s suf =
     (if length suf \<le> length s \<and> drop (length s - length suf) s = suf
      then take (length s - length suf) s else s)"

text \<open>
  \<^verbatim>\<open>strconv.ParseUint(s, 10, 0)\<close> with its error dropped, as \<^verbatim>\<open>setup\<close> calls it: 0 on a
  syntax error, the largest \<^verbatim>\<open>uint64\<close> as soon as the number overflows.
\<close>

fun ParseUint_loop :: "nat \<Rightarrow> string \<Rightarrow> u64" where
  "ParseUint_loop n [] = of_nat n"
| "ParseUint_loop n (c # cs) =
     (if \<not> (48 \<le> (of_char c :: nat) \<and> (of_char c :: nat) \<le> 57) then 0
      else if (2 ^ 64 - 1) div 10 + 1 \<le> n then - 1
      else if 2 ^ 64 - 1 < n * 10 + (of_char c - 48) then - 1
      else ParseUint_loop (n * 10 + (of_char c - 48)) cs)"

definition ParseUint :: "string \<Rightarrow> u64" where
  "ParseUint s = (if s = [] then 0 else ParseUint_loop 0 s)"

section \<open>The segment (segment.go)\<close>

record segment =
  store :: store
  index :: index
  baseOffset :: u64
  nextOffset :: u64
  config :: Config

text \<open>
  \<open>newSegment\<close>: a panic inside \<^verbatim>\<open>s.index.Read(-1)\<close> is not an \<^verbatim>\<open>err\<close> and is not
  turned into \<^verbatim>\<open>nextOffset = baseOffset\<close>.
\<close>

definition newSegment :: "filesys \<Rightarrow> u64 \<Rightarrow> Config \<Rightarrow> (error + segment) \<times> filesys" where
  "newSegment fs base c =
     (case os_OpenFile fs (storeName base) of
        (fs1, storeFile) \<Rightarrow>
          (case newStore fs1 storeFile of
             Inl e \<Rightarrow> (Inl e, fs1)
           | Inr st \<Rightarrow>
               (case os_OpenFile fs1 (indexName base) of
                  (fs2, indexFile) \<Rightarrow>
                    (case newIndex fs2 indexFile c of
                       (Inl e, fs3) \<Rightarrow> (Inl e, fs3)
                     | (Inr ix, fs3) \<Rightarrow>
                         (case index_Read ix (- 1) of
                            Inl Panic \<Rightarrow> (Inl Panic, fs3)
                          | Inl e \<Rightarrow>
                              (Inr \<lparr>store = st, index = ix, baseOffset = base,
                                    nextOffset = base, config = c\<rparr>, fs3)
                          | Inr (off, pos) \<Rightarrow>
                              (Inr \<lparr>store = st, index = ix, baseOffset = base,
                                    nextOffset = base + ucast off + 1, config = c\<rparr>, fs3))))))"

text \<open>
  \<open>Segment_Append\<close> returns \<^verbatim>\<open>(offset, err)\<close>, the file system and the segment. The
  record is marshalled with \<^verbatim>\<open>record.Offset = cur\<close>.
\<close>

definition Segment_Append ::
  "codec \<Rightarrow> filesys \<Rightarrow> segment \<Rightarrow> Record \<Rightarrow> (u64 \<times> error option) \<times> filesys \<times> segment" where
  "Segment_Append cd fs s record =
     (let cur = nextOffset s
      in case Marshal cd (record\<lparr>Offset := cur\<rparr>) of
           None \<Rightarrow> ((0, Some ErrCodec), fs, s)
         | Some p \<Rightarrow>
             (case store_Append fs (store s) p of
                ((n, pos, Some e), fs1, st1) \<Rightarrow> ((0, Some e), fs1, s\<lparr>store := st1\<rparr>)
              | ((n, pos, None), fs1, st1) \<Rightarrow>
                  (case index_Write (index s) (ucast (nextOffset s - baseOffset s)) pos of
                     (Some e, ix1) \<Rightarrow> ((0, Some e), fs1, s\<lparr>store := st1, index := ix1\<rparr>)
                   | (None, ix1) \<Rightarrow>
                       ((cur, None), fs1,
                        s\<lparr>store := st1, index := ix1, nextOffset := nextOffset s + 1\<rparr>))))"

definition Segment_Read ::
  "codec \<Rightarrow> filesys \<Rightarrow> segment \<Rightarrow> u64 \<Rightarrow> (error + Record) \<times> filesys \<times> segment" where
  "Segment_Read cd fs s off =
     (case index_Read (index s) (off - baseOffset s) of
        Inl e \<Rightarrow> (Inl e, fs, s)
      | Inr (out, pos) \<Rightarrow>
          (case store_Read fs (store s) pos of
             (Inl e, fs1, st1) \<Rightarrow> (Inl e, fs1, s\<lparr>store := st1\<rparr>)
           | (Inr p, fs1, st1) \<Rightarrow>
               (case Unmarshal cd p of
                  None \<Rightarrow> (Inl ErrCodec, fs1, s\<lparr>store := st1\<rparr>)
                | Some r \<Rightarrow> (Inr r, fs1, s\<lparr>store := st1\<rparr>))))"

definition IsMaxed :: "segment \<Rightarrow> bool" where
  "IsMaxed s \<longleftrightarrow>
     MaxStoreBytes (config s) \<le> s_size (store s) \<or> MaxIndexBytes (config s) \<le> i_size (index s)"

definition Segment_Close :: "filesys \<Rightarrow> segment \<Rightarrow> error option \<times> filesys \<times> segment" where
  "Segment_Close fs s =
     (case index_Close fs (index s) of
        (Some e, fs1, ix1) \<Rightarrow> (Some e, fs1, s\<lparr>index := ix1\<rparr>)
      | (None, fs1, ix1) \<Rightarrow>
          (case store_Close fs1 (store s) of
             (e, fs2, st1) \<Rightarrow> (e, fs2, s\<lparr>store := st1, index := ix1\<rparr>)))"

definition Segment_Remove :: "filesys \<Rightarrow> segment \<Rightarrow> error option \<times> filesys \<times> segment" where
  "Segment_Remove fs s =
     (case Segment_Close fs s of
        (Some e, fs1, s1) \<Rightarrow> (Some e, fs1, s1)
      | (None, fs1, s1) \<Rightarrow>
          (case os_Remove fs1 (index_Name (index s1)) of
             (fs2, Some e) \<Rightarrow> (Some (IOError e), fs2, s1)
           | (fs2, None) \<Rightarrow>
               (case os_Remove fs2 (fname (s_File (store s1))) of
                  (fs3, e) \<Rightarrow> (map_option IOError e, fs3, s1))))"

section \<open>The log (log.go)\<close>

text \<open>
  A \<^verbatim>\<open>*segment\<close> is an address into \<open>heap\<close>, the segments allocated so far, so that
  \<^verbatim>\<open>l.activeSegment\<close> and the elements of \<^verbatim>\<open>l.segments\<close> can name the same segment or
  different ones, as in Go. \<open>files\<close> is the directory \<^verbatim>\<open>l.Dir\<close>. A nil slice is \<open>[]\<close> and a
  nil pointer is \<open>None\<close>. The mutex is not modelled: calls are taken one after the other.
\<close>

record Log =
  files :: filesys
  heap :: "segment list"
  Config :: Config
  activeSegment :: "nat option"
  segments :: "nat list"

definition Log_newSegment :: "Log \<Rightarrow> u64 \<Rightarrow> error option \<times> Log" where
  "Log_newSegment l off =
     (case newSegment (files l) off (Config l) of
        (Inl e, fs1) \<Rightarrow> (Some e, l\<lparr>files := fs1\<rparr>)
      | (Inr s, fs1) \<Rightarrow>
          (None, l\<lparr>files := fs1, heap := heap l @ [s],
                   segments := segments l @ [length (heap l)],
                   activeSegment := Some (length (heap l))\<rparr>))"

text \<open>\<^verbatim>\<open>os.ReadDir\<close>: the names in the directory.\<close>

definition os_ReadDir :: "filesys \<Rightarrow> string list" where
  "os_ReadDir fs = map fst fs"

text \<open>
  The loop \<^verbatim>\<open>for i := 0; i < len(baseOffsets); i++ { ...; i++ }\<close> of \<^verbatim>\<open>setup\<close>: a segment
  for the offset at \<open>i\<close>, then the next offset is skipped.
\<close>

fun Log_setup_loop :: "Log \<Rightarrow> u64 list \<Rightarrow> error option \<times> Log" where
  "Log_setup_loop l [] = (None, l)"
| "Log_setup_loop l (b # bs) =
     (case Log_newSegment l b of
        (Some e, l1) \<Rightarrow> (Some e, l1)
      | (None, l1) \<Rightarrow> Log_setup_loop l1 (drop 1 bs))"

definition Log_setup :: "Log \<Rightarrow> error option \<times> Log" where
  "Log_setup l =
     (let baseOffsets =
            sort (map (\<lambda>nm. ParseUint (TrimSuffix nm (path_Ext nm))) (os_ReadDir (files l)))
      in case Log_setup_loop l baseOffsets of
           (Some e, l1) \<Rightarrow> (Some e, l1)
         | (None, l1) \<Rightarrow>
             if segments l1 = [] then Log_newSegment l1 (InitialOffset (Config l1))
             else (None, l1))"

text \<open>\<open>NewLog dir c\<close> opens a log on the directory with contents \<open>dir\<close>.\<close>

definition NewLog :: "filesys \<Rightarrow> Config \<Rightarrow> error option \<times> Log" where
  "NewLog dir c =
     (let c1 = (if MaxStoreBytes c = 0 then c\<lparr>MaxStoreBytes := 1024\<rparr> else c);
          c2 = (if MaxIndexBytes c1 = 0 then c1\<lparr>MaxIndexBytes := 1024\<rparr> else c1)
      in Log_setup \<lparr>files = dir, heap = [], Config = c2, activeSegment = None, segments = []\<rparr>)"

text \<open>\<open>Log_Append\<close> returns \<^verbatim>\<open>(off, err)\<close> and the log.\<close>

definition Log_Append :: "codec \<Rightarrow> Log \<Rightarrow> Record \<Rightarrow> (u64 \<times> error option) \<times> Log" where
  "Log_Append cd l record =
     (case activeSegment l of
        None \<Rightarrow> ((0, Some Panic), l)
      | Some a \<Rightarrow>
          (case Segment_Append cd (files l) (heap l ! a) record of
             ((off, Some e), fs1, s1) \<Rightarrow> ((0, Some e), l\<lparr>files := fs1, heap := (heap l)[a := s1]\<rparr>)
           | ((off, None), fs1, s1) \<Rightarrow>
               (let l1 = l\<lparr>files := fs1, heap := (heap l)[a := s1]\<rparr>
                in if IsMaxed (heap l1 ! a)
                   then (case Log_newSegment l1 (off + 1) of (e, l2) \<Rightarrow> ((off, e), l2))
                   else ((off, None), l1))))"

text \<open>The scan of \<open>Log_Read\<close> for the first segment that covers the offset.\<close>

fun find_segment :: "segment list \<Rightarrow> u64 \<Rightarrow> nat list \<Rightarrow> nat option" where
  "find_segment hp off [] = None"
| "find_segment hp off (a # as) =
     (if baseOffset (hp ! a) \<le> off \<and> off < nextOffset (hp ! a) then Some a
      else find_segment hp off as)"

definition Log_Read :: "codec \<Rightarrow> Log \<Rightarrow> u64 \<Rightarrow> (error + Record) \<times> Log" where
  "Log_Read cd l off =
     (case find_segment (heap l) off (segments l) of
        None \<Rightarrow> (Inl (ErrOffsetOutOfRange off), l)
      | Some a \<Rightarrow>
          (case Segment_Read cd (files l) (heap l ! a) off of
             (r, fs1, s1) \<Rightarrow> (r, l\<lparr>files := fs1, heap := (heap l)[a := s1]\<rparr>)))"

fun Close_loop ::
  "filesys \<Rightarrow> segment list \<Rightarrow> nat list \<Rightarrow> error option \<times> filesys \<times> segment list" where
  "Close_loop fs hp [] = (None, fs, hp)"
| "Close_loop fs hp (a # as) =
     (case Segment_Close fs (hp ! a) of
        (Some e, fs1, s1) \<Rightarrow> (Some e, fs1, hp[a := s1])
      | (None, fs1, s1) \<Rightarrow> Close_loop fs1 (hp[a := s1]) as)"

definition Log_Close :: "Log \<Rightarrow> error option \<times> Log" where
  "Log_Close l =
     (case Close_loop (files l) (heap l) (segments l) of
        (e, fs1, hp1) \<Rightarrow> (e, l\<lparr>files := fs1, heap := hp1\<rparr>))"

text \<open>
  The loop of \<open>Log_Truncate\<close>; \<open>acc\<close> is the local slice \<^verbatim>\<open>segments\<close>. When a \<^verbatim>\<open>Remove\<close>
  fails, \<^verbatim>\<open>Truncate\<close> returns before it assigns \<^verbatim>\<open>l.segments\<close>.
\<close>

fun Truncate_loop ::
  "filesys \<Rightarrow> segment list \<Rightarrow> u64 \<Rightarrow> nat list \<Rightarrow> nat list
     \<Rightarrow> error option \<times> filesys \<times> segment list \<times> nat list" where
  "Truncate_loop fs hp lowest [] acc = (None, fs, hp, acc)"
| "Truncate_loop fs hp lowest (a # as) acc =
     (if nextOffset (hp ! a) \<le> lowest + 1
      then (case Segment_Remove fs (hp ! a) of
              (Some e, fs1, s1) \<Rightarrow> (Some e, fs1, hp[a := s1], acc)
            | (None, fs1, s1) \<Rightarrow> Truncate_loop fs1 (hp[a := s1]) lowest as acc)
      else Truncate_loop fs hp lowest as (acc @ [a]))"

definition Log_Truncate :: "Log \<Rightarrow> u64 \<Rightarrow> error option \<times> Log" where
  "Log_Truncate l lowest =
     (case Truncate_loop (files l) (heap l) lowest (segments l) [] of
        (Some e, fs1, hp1, acc) \<Rightarrow> (Some e, l\<lparr>files := fs1, heap := hp1\<rparr>)
      | (None, fs1, hp1, acc) \<Rightarrow> (None, l\<lparr>files := fs1, heap := hp1, segments := acc\<rparr>))"

text \<open>\<^verbatim>\<open>l.segments[0]\<close> and \<^verbatim>\<open>l.segments[len(l.segments)-1]\<close> panic on an empty slice.\<close>

definition LowestOffset :: "Log \<Rightarrow> error + u64" where
  "LowestOffset l =
     (case segments l of [] \<Rightarrow> Inl Panic | a # as \<Rightarrow> Inr (baseOffset (heap l ! a)))"

definition HighestOffset :: "Log \<Rightarrow> error + u64" where
  "HighestOffset l =
     (if segments l = [] then Inl Panic
      else (let off = nextOffset (heap l ! last (segments l))
            in if off = 0 then Inr 0 else Inr (off - 1)))"

text \<open>
  \<open>Log_Reader\<close> is \<^verbatim>\<open>io.ReadAll(l.Reader())\<close>: the bytes the stream gives and the error
  that ends it, if any. Each \<^verbatim>\<open>originReader\<close> is read from byte 0 until \<^verbatim>\<open>io.EOF\<close>, which
  is one \<open>store_ReadAt\<close> with a buffer longer than the flushed file;
  \<^verbatim>\<open>io.MultiReader\<close> then goes on to the next reader, and stops at any other error.
\<close>

definition originReader_ReadAll ::
  "filesys \<Rightarrow> store \<Rightarrow> (byte list \<times> io_error option) \<times> filesys \<times> store" where
  "originReader_ReadAll fs s =
     (let n = Suc ((case map_of fs (fname (s_File s)) of None \<Rightarrow> 0 | Some c \<Rightarrow> length c)
                   + length (pending (s_buf s)))
      in case store_ReadAt fs s n 0 of
           ((bs, Some EOF), fs1, s1) \<Rightarrow> ((bs, None), fs1, s1)
         | r \<Rightarrow> r)"

fun Reader_loop ::
  "filesys \<Rightarrow> segment list \<Rightarrow> nat list
     \<Rightarrow> (byte list \<times> error option) \<times> filesys \<times> segment list" where
  "Reader_loop fs hp [] = (([], None), fs, hp)"
| "Reader_loop fs hp (a # as) =
     (case originReader_ReadAll fs (store (hp ! a)) of
        ((bs, Some e), fs1, st1) \<Rightarrow>
          ((bs, Some (IOError e)), fs1, hp[a := (hp ! a)\<lparr>store := st1\<rparr>])
      | ((bs, None), fs1, st1) \<Rightarrow>
          (case Reader_loop fs1 (hp[a := (hp ! a)\<lparr>store := st1\<rparr>]) as of
             ((cs, e), fs2, hp2) \<Rightarrow> ((bs @ cs, e), fs2, hp2)))"

definition Log_Reader :: "Log \<Rightarrow> (byte list \<times> error option) \<times> Log" where
  "Log_Reader l =
     (case Reader_loop (files l) (heap l) (segments l) of
        (r, fs1, hp1) \<Rightarrow> (r, l\<lparr>files := fs1, heap := hp1\<rparr>))"

section \<open>A codec for the examples\<close>

text \<open>
  The examples need a codec that can be run: the offset as eight big-endian bytes,
  followed by the value.
\<close>

definition plain_codec :: codec where
  "plain_codec =
     \<lparr>Marshal = (\<lambda>r. Some (PutUint64 (Offset r) @ Value r)),
      Unmarshal = (\<lambda>bs. if length bs < 8 then None
                         else Some \<lparr>Value = drop 8 bs, Offset = Uint64 (take 8 bs)\<rparr>)\<rparr>"

section \<open>Well-formed logs\<close>

text \<open>
  \<open>covers s off\<close> is the test \<^verbatim>\<open>segment.baseOffset <= off && off < segment.nextOffset\<close> of
  \<open>Log_Read\<close>.
\<close>

definition covers :: "segment \<Rightarrow> u64 \<Rightarrow> bool" where
  "covers s off \<longleftrightarrow> baseOffset s \<le> off \<and> off < nextOffset s"

text \<open>
  The bytes of a store as a reader sees them after \<^verbatim>\<open>Flush\<close>: the file followed by the
  bytes still in the buffer.
\<close>

definition content :: "filesys \<Rightarrow> store \<Rightarrow> byte list" where
  "content fs s =
     (case map_of fs (fname (s_File s)) of None \<Rightarrow> [] | Some c \<Rightarrow> c) @ pending (s_buf s)"

text \<open>A store that is open on an existing file and whose writer has met no error.\<close>

definition store_ok :: "filesys \<Rightarrow> store \<Rightarrow> bool" where
  "store_ok fs s \<longleftrightarrow>
     \<not> fclosed (s_File s) \<and> werr (s_buf s) = None \<and> map_of fs (fname (s_File s)) \<noteq> None"

text \<open>
  The configurations with which \<open>newSegment\<close> succeeds: \<open>NewLog\<close> replaces a zero limit,
  and \<^verbatim>\<open>int64(MaxIndexBytes)\<close> must not be negative.
\<close>

definition cfg_ok :: "Config \<Rightarrow> bool" where
  "cfg_ok c \<longleftrightarrow> 0 < MaxStoreBytes c \<and> 0 < MaxIndexBytes c \<and> unat (MaxIndexBytes c) < 2 ^ 63"

text \<open>
  Relative offsets are \<^verbatim>\<open>uint32\<close>: an index of at most \<open>2 ^ 32\<close> entries never truncates
  one.
\<close>

definition index32 :: "Config \<Rightarrow> bool" where
  "index32 c \<longleftrightarrow> unat (MaxIndexBytes c) \<le> 12 * 2 ^ 32"

text \<open>
  A segment as \<open>newSegment\<close> and \<open>Segment_Append\<close> leave it: both files open under the
  names of its base offset, the index file as long as the mapping, and one index entry
  for each offset from \<open>baseOffset\<close> up to \<open>nextOffset\<close>.
\<close>

definition seg_inv :: "filesys \<Rightarrow> Config \<Rightarrow> segment \<Rightarrow> bool" where
  "seg_inv fs c s \<longleftrightarrow>
     config s = c
     \<and> s_File (store s) = \<lparr>fname = storeName (baseOffset s), fclosed = False\<rparr>
     \<and> werr (s_buf (store s)) = None
     \<and> map_of fs (storeName (baseOffset s)) \<noteq> None
     \<and> i_file (index s) = \<lparr>fname = indexName (baseOffset s), fclosed = False\<rparr>
     \<and> map_option length (map_of fs (indexName (baseOffset s))) = Some (length (i_mmap (index s)))
     \<and> length (i_mmap (index s)) = unat (MaxIndexBytes c)
     \<and> unat (i_size (index s)) \<le> length (i_mmap (index s))
     \<and> baseOffset s \<le> nextOffset s
     \<and> unat (i_size (index s)) = 12 * (unat (nextOffset s) - unat (baseOffset s))"

text \<open>
  The segments of a log in list order: every segment but the last holds a record, and
  each begins where the one before it ends, or later.
\<close>

fun chain :: "(u64 \<times> u64) list \<Rightarrow> bool" where
  "chain [] = True"
| "chain [x] = True"
| "chain (x # y # r) = (fst x < snd x \<and> snd x \<le> fst y \<and> chain (y # r))"

definition spans :: "segment list \<Rightarrow> nat list \<Rightarrow> (u64 \<times> u64) list" where
  "spans hp as = map (\<lambda>a. (baseOffset (hp ! a), nextOffset (hp ! a))) as"

text \<open>
  The invariant of a log that was opened on an empty directory and appended to: the
  active segment is the last of the list and is not maxed, the segments are well formed
  and in order, and the directory holds the files of the segments and nothing else.
\<close>

definition log_inv :: "Log \<Rightarrow> bool" where
  "log_inv l \<longleftrightarrow>
     cfg_ok (Config l)
     \<and> segments l \<noteq> []
     \<and> distinct (segments l)
     \<and> (\<forall>a \<in> set (segments l). a < length (heap l) \<and> seg_inv (files l) (Config l) (heap l ! a))
     \<and> activeSegment l = Some (last (segments l))
     \<and> chain (spans (heap l) (segments l))
     \<and> distinct (map fst (files l))
     \<and> set (map fst (files l)) =
         (\<Union>a \<in> set (segments l).
            {storeName (baseOffset (heap l ! a)), indexName (baseOffset (heap l ! a))})
     \<and> \<not> IsMaxed (heap l ! last (segments l))"

text \<open>The index entry number \<open>i\<close> of a mapping: relative offset and position.\<close>

definition entry_at :: "byte list \<Rightarrow> nat \<Rightarrow> u32 \<times> u64" where
  "entry_at m i =
     (Uint32 (take 4 (drop (12 * i) m)), Uint64 (take 8 (drop (12 * i + 4) m)))"

text \<open>Entry \<open>i\<close> of every index carries the relative offset \<open>i\<close>.\<close>

definition entries_inv :: "Log \<Rightarrow> bool" where
  "entries_inv l \<longleftrightarrow>
     (\<forall>a \<in> set (segments l).
        \<forall>i < unat (i_size (index (heap l ! a))) div 12.
          fst (entry_at (i_mmap (index (heap l ! a))) i) = of_nat i)"

text \<open>A whole frame, length prefix and payload, starts at byte \<open>p\<close> of \<open>c\<close>.\<close>

definition frame_at :: "byte list \<Rightarrow> nat \<Rightarrow> bool" where
  "frame_at c p \<longleftrightarrow>
     p + 8 \<le> length c \<and> p + 8 + be_value (take 8 (drop p c)) \<le> length c"

text \<open>
  Every store knows its size, which stays within the offsets an \<^verbatim>\<open>int64\<close> can address,
  and every index entry points at a whole frame of its store.
\<close>

definition frames_inv :: "Log \<Rightarrow> bool" where
  "frames_inv l \<longleftrightarrow>
     (\<forall>a \<in> set (segments l).
        s_size (store (heap l ! a)) = of_nat (length (content (files l) (store (heap l ! a))))
        \<and> length (content (files l) (store (heap l ! a))) + 8 < 2 ^ 63
        \<and> (\<forall>i < unat (i_size (index (heap l ! a))) div 12.
              frame_at (content (files l) (store (heap l ! a)))
                (unat (snd (entry_at (i_mmap (index (heap l ! a))) i)))))"

text \<open>
  A run of \<open>Log_Append\<close> calls, one for each record, with the \<^verbatim>\<open>(off, err)\<close> of every
  call.
\<close>

fun appends :: "codec \<Rightarrow> Log \<Rightarrow> Record list \<Rightarrow> (u64 \<times> error option) list \<times> Log" where
  "appends cd l [] = ([], l)"
| "appends cd l (r # rs) =
     (case Log_Append cd l r of
        (res, l1) \<Rightarrow> (case appends cd l1 rs of (ress, l2) \<Rightarrow> (res # ress, l2)))"

section \<open>Example logs\<close>

text \<open>
  A log with room for two records in a store and three entries in an index, opened on
  an empty directory, after one, two and three appends.
\<close>

definition ex_cfg :: Config where
  "ex_cfg = \<lparr>MaxStoreBytes = 32, MaxIndexBytes = 36, InitialOffset = 0\<rparr>"

definition ex_record :: Record where
  "ex_record = \<lparr>Value = [104, 105, 33], Offset = 0\<rparr>"

definition ex_log0 :: Log where
  "ex_log0 = snd (NewLog [] ex_cfg)"

definition ex_log1 :: Log where
  "ex_log1 = snd (Log_Append plain_codec ex_log0 ex_record)"

definition ex_log2 :: Log where
  "ex_log2 = snd (Log_Append plain_codec ex_log1 ex_record)"

definition ex_log3 :: Log where
  "ex_log3 = snd (Log_Append plain_codec ex_log2 ex_record)"

section \<open>The big-endian codec\<close>

lemma length_be_bytes [simp]: "length (be_bytes n v) = n"
  by (induction n arbitrary: v) auto

lemma be_value_snoc: "be_value (xs @ [b]) = be_value xs * 256 + unat b"
  by (simp add: be_value_def)

lemma be_value_be_bytes: "be_value (be_bytes n v) = v mod 256 ^ n"
proof (induction n arbitrary: v)
  case 0
  then show ?case by (simp add: be_value_def)
next
  case (Suc n)
  have "unat (of_nat v :: byte) = v mod 256"
    by (simp add: unat_of_nat)
  then have "be_value (be_bytes (Suc n) v) = (v div 256 mod 256 ^ n) * 256 + v mod 256"
    by (simp add: be_value_snoc Suc)
  also have "\<dots> = v mod (256 * 256 ^ n)"
    by (simp add: mod_mult2_eq)
  finally show ?case by simp
qed

lemma length_PutUint64 [simp]: "length (PutUint64 v) = 8"
  by (simp add: PutUint64_def)

lemma length_PutUint32 [simp]: "length (PutUint32 v) = 4"
  by (simp add: PutUint32_def)

lemma be_value_PutUint64: "be_value (PutUint64 v) = unat v"
proof -
  have "unat v < 256 ^ 8" using unsigned_less [of v] by simp
  then show ?thesis by (simp add: PutUint64_def be_value_be_bytes)
qed

lemma Uint64_PutUint64 [simp]: "Uint64 (PutUint64 v) = v"
  by (simp add: Uint64_def be_value_PutUint64)

lemma Uint32_PutUint32 [simp]: "Uint32 (PutUint32 v) = v"
proof -
  have "unat v < 256 ^ 4" using unsigned_less [of v] by simp
  then show ?thesis by (simp add: Uint32_def PutUint32_def be_value_be_bytes)
qed

section \<open>Evaluating the model on examples\<close>

lemma be_bytes_8:
  "be_bytes 8 v =
     [of_nat (v div 256 div 256 div 256 div 256 div 256 div 256 div 256),
      of_nat (v div 256 div 256 div 256 div 256 div 256 div 256),
      of_nat (v div 256 div 256 div 256 div 256 div 256),
      of_nat (v div 256 div 256 div 256 div 256),
      of_nat (v div 256 div 256 div 256),
      of_nat (v div 256 div 256), of_nat (v div 256), of_nat v]"
proof -
  have e: "(8::nat) = Suc (Suc (Suc (Suc (Suc (Suc (Suc (Suc 0)))))))" by simp
  show ?thesis unfolding e by (simp del: div_mult2_eq)
qed

lemma be_bytes_4:
  "be_bytes 4 v =
     [of_nat (v div 256 div 256 div 256), of_nat (v div 256 div 256), of_nat (v div 256), of_nat v]"
proof -
  have e: "(4::nat) = Suc (Suc (Suc (Suc 0)))" by simp
  show ?thesis unfolding e by (simp del: div_mult2_eq)
qed

lemmas log_eval =
  be_bytes_8 be_bytes_4 be_value_def PutUint64_def PutUint32_def Uint64_def Uint32_def
  os_OpenFile_def os_Stat_def resize_def os_Truncate_def os_Remove_def File_Write_def
  File_ReadAt_def File_Sync_def File_Truncate_def File_Close_def bufSize_def
  Writer_Flush_def Writer_Write_def lenWidth_def newStore_def store_Append_def
  store_Read_def store_ReadAt_def store_Close_def offWidth_def posWidth_def entWidth_def
  gommap_Map_def mmap_Sync_def newIndex_def index_Close_def index_Read_def
  index_Write_def index_Name_def digit_char_def dec_digits.simps storeName_def
  indexName_def path_Ext_def TrimSuffix_def ParseUint_def newSegment_def
  Segment_Append_def Segment_Read_def IsMaxed_def Segment_Close_def Segment_Remove_def
  Log_newSegment_def os_ReadDir_def Log_setup_def NewLog_def Log_Append_def Log_Read_def
  Log_Close_def Log_Truncate_def LowestOffset_def HighestOffset_def
  originReader_ReadAll_def Log_Reader_def plain_codec_def Let_def

lemmas ex_defs = ex_cfg_def ex_record_def ex_log0_def ex_log1_def ex_log2_def ex_log3_def

lemma ex_log3_spans:
  "segments ex_log3 = [0, 1] \<and> spans (heap ex_log3) [0, 1] = [(0, 2), (2, 3)]"
  by (simp add: ex_defs spans_def log_eval)

section \<open>Reading by offset\<close>

lemma find_segment_None_iff:
  "find_segment hp off as = None \<longleftrightarrow> (\<forall>a \<in> set as. \<not> covers (hp ! a) off)"
  by (induction as) (auto simp: covers_def)

lemma find_segment_Some:
  "find_segment hp off as = Some a \<Longrightarrow> a \<in> set as \<and> covers (hp ! a) off"
  by (induction as) (auto simp: covers_def split: if_splits)

lemma index_Read_error:
  "index_Read i n = Inl e \<Longrightarrow> e = IOError EOF \<or> e = Panic"
  by (auto simp: index_Read_def Let_def split: if_splits)

lemma store_Read_error:
  "fst (store_Read fs s pos) = Inl e \<Longrightarrow> \<exists>x. e = IOError x"
  by (auto simp: store_Read_def split: prod.splits option.splits)

lemma Segment_Read_not_out_of_range:
  "fst (Segment_Read cd fs s off) \<noteq> Inl (ErrOffsetOutOfRange x)"
proof
  assume a: "fst (Segment_Read cd fs s off) = Inl (ErrOffsetOutOfRange x)"
  show False
  proof (cases "index_Read (index s) (off - baseOffset s)")
    case (Inl e)
    with a index_Read_error [OF Inl] show False
      by (auto simp: Segment_Read_def)
  next
    case (Inr op)
    obtain out pos where op: "op = (out, pos)" by (cases op)
    obtain r fs1 st1 where sr: "store_Read fs (store s) pos = (r, fs1, st1)"
      by (cases "store_Read fs (store s) pos")
    show False
    proof (cases r)
      case (Inl e)
      with sr store_Read_error [of fs "store s" pos e] a Inr op show False
        by (auto simp: Segment_Read_def)
    next
      case (Inr p)
      with sr a \<open>index_Read (index s) (off - baseOffset s) = Inr op\<close> op show False
        by (auto simp: Segment_Read_def split: option.splits)
    qed
  qed
qed

text \<open>
  C4. \<open>Log_Read\<close> fails with \<open>ErrOffsetOutOfRange off\<close> exactly when no segment of the
  list covers \<open>off\<close>; when one does, the read is the \<open>Segment_Read\<close> of a segment that
  covers \<open>off\<close>, and its result is no \<open>ErrOffsetOutOfRange\<close>.
\<close>

theorem Log_Read_out_of_range_iff:
  "(fst (Log_Read cd l off) = Inl (ErrOffsetOutOfRange off)
      \<longleftrightarrow> (\<forall>a \<in> set (segments l). \<not> covers (heap l ! a) off))
   \<and> ((\<exists>a \<in> set (segments l). covers (heap l ! a) off) \<longrightarrow>
        (\<exists>a \<in> set (segments l). covers (heap l ! a) off
           \<and> fst (Log_Read cd l off) = fst (Segment_Read cd (files l) (heap l ! a) off))
        \<and> (\<forall>x. fst (Log_Read cd l off) \<noteq> Inl (ErrOffsetOutOfRange x)))"
proof (cases "find_segment (heap l) off (segments l)")
  case None
  then have "\<forall>a \<in> set (segments l). \<not> covers (heap l ! a) off"
    by (simp add: find_segment_None_iff)
  with None show ?thesis by (simp add: Log_Read_def)
next
  case (Some a)
  then have a: "a \<in> set (segments l)" "covers (heap l ! a) off"
    using find_segment_Some by blast+
  have r: "fst (Log_Read cd l off) = fst (Segment_Read cd (files l) (heap l ! a) off)"
    using Some by (simp add: Log_Read_def split: prod.splits)
  with a Segment_Read_not_out_of_range [of cd "files l" "heap l ! a" off] show ?thesis
    by auto
qed

theorem Log_Read_out_of_range_iff_witness:
  "segments ex_log3 = [0, 1]
   \<and> \<not> covers (heap ex_log3 ! 0) 3 \<and> \<not> covers (heap ex_log3 ! 1) 3
   \<and> fst (Log_Read plain_codec ex_log3 3) = Inl (ErrOffsetOutOfRange 3)
   \<and> covers (heap ex_log3 ! 0) 1
   \<and> fst (Log_Read plain_codec ex_log3 1) \<noteq> Inl (ErrOffsetOutOfRange 1)"
proof -
  have s: "segments ex_log3 = [0, 1]"
    and c: "\<not> covers (heap ex_log3 ! 0) 3" "\<not> covers (heap ex_log3 ! 1) 3"
           "covers (heap ex_log3 ! 0) 1"
    using ex_log3_spans by (simp_all add: spans_def covers_def)
  show ?thesis
    using Log_Read_out_of_range_iff [of plain_codec ex_log3 3]
      Log_Read_out_of_range_iff [of plain_codec ex_log3 1] s c
    by auto
qed

end
